theory Spec2Isabelle
  imports Main
begin

section \<open>The Python fragment of a package initializer\<close>

text \<open>
  The repository is one file, \<^verbatim>\<open>src/network_rag/__init__.py\<close>: a module docstring and
  two assignments of literals. The module body is embedded as a list of statements and
  loaded by an interpreter of module-level Python. The fragment is wider than the file
  uses (names, deletion, imports, definitions, branches, loops, raise), so that "the
  module does none of these" is a statement about this module and not about the syntax.
\<close>

datatype expr =
    Str string
  | ListE "expr list"
  | Name string
  | Environ string

datatype stmt =
    Expr expr
  | Assign string expr
  | Delete string
  | Import string
  | FunctionDef string "stmt list"
  | ClassDef string "stmt list"
  | If expr "stmt list" "stmt list"
  | While expr "stmt list"
  | Raise string

datatype pyval =
    NoneV
  | StrV string
  | ListV "pyval list"
  | FuncV "stmt list"
  | ClassV string
  | ModuleV string
  | BuiltinsV

datatype error =
    NameError string
  | KeyError string
  | Raised string

text \<open>
  What a running interpreter holds, as far as a module body can reach it: the module's
  own namespace (its \<^verbatim>\<open>__dict__\<close>), the process-wide table of loaded modules, the
  process environment, the trace of input/output done so far, and the optimization level
  the interpreter was started with (\<^verbatim>\<open>sys.flags.optimize\<close>: 0, 1 for \<^verbatim>\<open>-O\<close>, 2 for
  \<^verbatim>\<open>-OO\<close>). \<open>BuiltinsV\<close> is the interpreter's namespace of built-in names.
\<close>

record world =
  namespace :: "string \<rightharpoonup> pyval"
  sys_modules :: "string list"
  environ :: "string \<rightharpoonup> string"
  io_trace :: "string list"
  optimize :: nat

subsection \<open>Expressions\<close>

text \<open>
  A literal evaluates to itself, a list display evaluates its items from left to right, a
  name is looked up in the module namespace (\<^verbatim>\<open>NameError\<close> when unbound) and
  \<^verbatim>\<open>os.environ[k]\<close> reads the environment (\<^verbatim>\<open>KeyError\<close> when unset).
\<close>

fun eval :: "world \<Rightarrow> expr \<Rightarrow> error + pyval"
  and eval_items :: "world \<Rightarrow> expr list \<Rightarrow> error + pyval list" where
  "eval w (Str s) = Inr (StrV s)"
| "eval w (ListE es) =
     (case eval_items w es of Inl e \<Rightarrow> Inl e | Inr vs \<Rightarrow> Inr (ListV vs))"
| "eval w (Name x) =
     (case namespace w x of None \<Rightarrow> Inl (NameError x) | Some v \<Rightarrow> Inr v)"
| "eval w (Environ k) =
     (case environ w k of None \<Rightarrow> Inl (KeyError k) | Some v \<Rightarrow> Inr (StrV v))"
| "eval_items w [] = Inr []"
| "eval_items w (e # es) =
     (case eval w e of
        Inl err \<Rightarrow> Inl err
      | Inr v \<Rightarrow> (case eval_items w es of Inl err \<Rightarrow> Inl err | Inr vs \<Rightarrow> Inr (v # vs)))"

text \<open>Truth value testing: \<^verbatim>\<open>None\<close>, the empty string and the empty list are false.\<close>

fun truthy :: "pyval \<Rightarrow> bool" where
  "truthy NoneV = False"
| "truthy (StrV s) = (s \<noteq> [])"
| "truthy (ListV vs) = (vs \<noteq> [])"
| "truthy (FuncV b) = True"
| "truthy (ClassV c) = True"
| "truthy (ModuleV m) = True"
| "truthy BuiltinsV = True"

subsection \<open>Statements\<close>

text \<open>
  The result of running a statement is \<open>None\<close> when the fuel ran out (the loop did not
  finish), \<open>Some (Inl e)\<close> when the exception \<open>e\<close> escaped, and \<open>Some (Inr w)\<close> when it
  completed in the world \<open>w\<close>. Only a loop iteration uses fuel.

  An import records the module in \<^verbatim>\<open>sys.modules\<close>, reads it (an entry of the I/O trace)
  and binds its name. A function definition binds a function object without running its
  body. A class body runs when the class is defined, in a scope of its own: its bindings
  do not reach the module namespace, its effects and its exceptions do.
\<close>

fun exec :: "nat \<Rightarrow> stmt \<Rightarrow> world \<Rightarrow> (error + world) option"
  and exec_block :: "nat \<Rightarrow> stmt list \<Rightarrow> world \<Rightarrow> (error + world) option" where
  "exec n (Expr e) w =
     (case eval w e of Inl err \<Rightarrow> Some (Inl err) | Inr v \<Rightarrow> Some (Inr w))"
| "exec n (Assign x e) w =
     (case eval w e of
        Inl err \<Rightarrow> Some (Inl err)
      | Inr v \<Rightarrow> Some (Inr (w\<lparr>namespace := (namespace w)(x \<mapsto> v)\<rparr>)))"
| "exec n (Delete x) w =
     (case namespace w x of
        None \<Rightarrow> Some (Inl (NameError x))
      | Some v \<Rightarrow> Some (Inr (w\<lparr>namespace := (namespace w)(x := None)\<rparr>)))"
| "exec n (Import m) w =
     Some (Inr (w\<lparr>namespace := (namespace w)(m \<mapsto> ModuleV m),
                   sys_modules := sys_modules w @ [m],
                   io_trace := io_trace w @ [m]\<rparr>))"
| "exec n (FunctionDef f body) w =
     Some (Inr (w\<lparr>namespace := (namespace w)(f \<mapsto> FuncV body)\<rparr>))"
| "exec n (ClassDef c body) w =
     (case exec_block n body w of
        None \<Rightarrow> None
      | Some (Inl err) \<Rightarrow> Some (Inl err)
      | Some (Inr w') \<Rightarrow> Some (Inr (w'\<lparr>namespace := (namespace w)(c \<mapsto> ClassV c)\<rparr>)))"
| "exec n (If c thn els) w =
     (case eval w c of
        Inl err \<Rightarrow> Some (Inl err)
      | Inr v \<Rightarrow> if truthy v then exec_block n thn w else exec_block n els w)"
| "exec 0 (While c body) w =
     (case eval w c of
        Inl err \<Rightarrow> Some (Inl err)
      | Inr v \<Rightarrow> if truthy v then None else Some (Inr w))"
| "exec (Suc n) (While c body) w =
     (case eval w c of
        Inl err \<Rightarrow> Some (Inl err)
      | Inr v \<Rightarrow>
          if truthy v then
            (case exec_block n body w of
               None \<Rightarrow> None
             | Some (Inl err) \<Rightarrow> Some (Inl err)
             | Some (Inr w') \<Rightarrow> exec n (While c body) w')
          else Some (Inr w))"
| "exec n (Raise e) w = Some (Inl (Raised e))"
| "exec_block n [] w = Some (Inr w)"
| "exec_block n (s # ss) w =
     (case exec n s w of
        None \<Rightarrow> None
      | Some (Inl err) \<Rightarrow> Some (Inl err)
      | Some (Inr w') \<Rightarrow> exec_block n ss w')"

text \<open>
  Running a module body in the module's namespace, as the import system does with
  \<^verbatim>\<open>exec(code, module.__dict__)\<close>. The interpreter first makes the built-in names
  available: a namespace that does not bind \<^verbatim>\<open>__builtins__\<close> is given it. When the
  first statement is a string literal, it is the module's docstring: the compiled body
  stores it in \<^verbatim>\<open>__doc__\<close> before anything else, unless the optimization level is 2,
  at which docstrings are stripped and \<^verbatim>\<open>__doc__\<close> is left as it was. A body with no
  docstring does not touch \<^verbatim>\<open>__doc__\<close>. Then the statements run in order.
\<close>

definition provide_builtins :: "world \<Rightarrow> world" where
  "provide_builtins w =
     (case namespace w ''__builtins__'' of
        None \<Rightarrow> w\<lparr>namespace := (namespace w)(''__builtins__'' \<mapsto> BuiltinsV)\<rparr>
      | Some b \<Rightarrow> w)"

fun bind_docstring :: "stmt list \<Rightarrow> world \<Rightarrow> world" where
  "bind_docstring (Expr (Str d) # ss) w =
     (if optimize w < 2 then w\<lparr>namespace := (namespace w)(''__doc__'' \<mapsto> StrV d)\<rparr> else w)"
| "bind_docstring ss w = w"

definition exec_module :: "nat \<Rightarrow> stmt list \<Rightarrow> world \<Rightarrow> (error + world) option" where
  "exec_module n body w = exec_block n body (bind_docstring body (provide_builtins w))"

subsection \<open>What a module body contains\<close>

text \<open>
  Every statement that occurs in a statement, itself included, down through the bodies of
  functions, classes, branches and loops.
\<close>

fun substatements :: "stmt \<Rightarrow> stmt list"
  and block_statements :: "stmt list \<Rightarrow> stmt list" where
  "substatements (FunctionDef f body) = FunctionDef f body # block_statements body"
| "substatements (ClassDef c body) = ClassDef c body # block_statements body"
| "substatements (If c thn els) = If c thn els # block_statements thn @ block_statements els"
| "substatements (While c body) = While c body # block_statements body"
| "substatements (Expr e) = [Expr e]"
| "substatements (Assign x e) = [Assign x e]"
| "substatements (Delete x) = [Delete x]"
| "substatements (Import m) = [Import m]"
| "substatements (Raise e) = [Raise e]"
| "block_statements [] = []"
| "block_statements (s # ss) = substatements s @ block_statements ss"

fun is_function_def :: "stmt \<Rightarrow> bool" where
  "is_function_def (FunctionDef f body) = True"
| "is_function_def s = False"

fun is_class_def :: "stmt \<Rightarrow> bool" where
  "is_class_def (ClassDef c body) = True"
| "is_class_def s = False"

fun is_branch :: "stmt \<Rightarrow> bool" where
  "is_branch (If c thn els) = True"
| "is_branch s = False"

fun is_loop :: "stmt \<Rightarrow> bool" where
  "is_loop (While c body) = True"
| "is_loop s = False"

fun is_import :: "stmt \<Rightarrow> bool" where
  "is_import (Import m) = True"
| "is_import s = False"

fun is_raise :: "stmt \<Rightarrow> bool" where
  "is_raise (Raise e) = True"
| "is_raise s = False"

text \<open>The statements that bind, and that unbind, the name \<open>x\<close>.\<close>

fun assigns :: "string \<Rightarrow> stmt \<Rightarrow> bool" where
  "assigns x (Assign y e) = (x = y)"
| "assigns x (Import m) = (x = m)"
| "assigns x (FunctionDef f body) = (x = f)"
| "assigns x (ClassDef c body) = (x = c)"
| "assigns x s = False"

fun deletes :: "string \<Rightarrow> stmt \<Rightarrow> bool" where
  "deletes x (Delete y) = (x = y)"
| "deletes x s = False"

text \<open>
  A literal is a string literal or a list display of literals: an expression that reads
  nothing. A constant definition is a docstring-like string statement or the assignment
  of a literal to a name.
\<close>

fun is_literal :: "expr \<Rightarrow> bool"
  and are_literals :: "expr list \<Rightarrow> bool" where
  "is_literal (Str s) = True"
| "is_literal (ListE es) = are_literals es"
| "is_literal (Name x) = False"
| "is_literal (Environ k) = False"
| "are_literals [] = True"
| "are_literals (e # es) = (is_literal e \<and> are_literals es)"

fun is_constant_definition :: "stmt \<Rightarrow> bool" where
  "is_constant_definition (Expr (Str d)) = True"
| "is_constant_definition (Assign x e) = is_literal e"
| "is_constant_definition s = False"

text \<open>
  The operations a module offers are the functions its body defines. A step of the loaded
  module is a call of one of them that returns.
\<close>

fun function_of :: "stmt \<Rightarrow> (string \<times> stmt list) list" where
  "function_of (FunctionDef f body) = [(f, body)]"
| "function_of s = []"

definition operations :: "stmt list \<Rightarrow> (string \<times> stmt list) list" where
  "operations body = concat (map function_of (block_statements body))"

inductive module_step :: "stmt list \<Rightarrow> world \<Rightarrow> world \<Rightarrow> bool" where
  call: "(f, fbody) \<in> set (operations body) \<Longrightarrow> exec_block n fbody w = Some (Inr w')
         \<Longrightarrow> module_step body w w'"

section \<open>The module \<^verbatim>\<open>network_rag/__init__.py\<close>\<close>

text \<open>
  The docstring, line by line as in the file. Its one character outside ASCII, the dash
  after \<^verbatim>\<open>NXQL\<close>, stands as the three bytes the file holds for it.
\<close>

definition docstring :: string where
  "docstring =
     ''\<newline>'' @
     ''Network RAG - Network-based Retrieval-Augmented Generation\<newline>'' @
     ''\<newline>'' @
     ''Precise retrieval with broad context.\<newline>'' @
     ''\<newline>'' @
     ''Open-source Python framework that combines vector search with network relationships\<newline>'' @
     ''for precise retrieval with broad context. Define your graph explicitly in code,\<newline>'' @
     ''deploy anywhere with your current database and tech stack, and query with NXQL'' @
       [CHR 0xE2, CHR 0x80, CHR 0x94] @ ''\<newline>'' @
     ''a composable query language built for hybrid retrieval.\<newline>''"

text \<open>
  \<^verbatim>\<open>
  """..."""

  __version__ = "0.0.1"

  # Core exports will be added as modules are implemented
  __all__ = ["__version__"]
  \<close>
\<close>

definition network_rag_init :: "stmt list" where
  "network_rag_init =
     [Expr (Str docstring),
      Assign ''__version__'' (Str ''0.0.1''),
      Assign ''__all__'' (ListE [Str ''__version__''])]"

text \<open>Loading (importing, or reloading) the module in the world \<open>w\<close>.\<close>

definition load :: "nat \<Rightarrow> world \<Rightarrow> (error + world) option" where
  "load n w = exec_module n network_rag_init w"

subsection \<open>What a client of the module observes\<close>

text \<open>
  \<^verbatim>\<open>module.__version__\<close> when it is a string; the names \<^verbatim>\<open>from module import *\<close>
  asks for, which are those of \<^verbatim>\<open>module.__all__\<close> when that is a list of strings.
\<close>

definition version_of :: "world \<Rightarrow> string option" where
  "version_of w = (case namespace w ''__version__'' of Some (StrV v) \<Rightarrow> Some v | _ \<Rightarrow> None)"

fun str_of :: "pyval \<Rightarrow> string option" where
  "str_of (StrV s) = Some s"
| "str_of v = None"

definition exports_of :: "world \<Rightarrow> string list option" where
  "exports_of w =
     (case namespace w ''__all__'' of Some (ListV vs) \<Rightarrow> those (map str_of vs) | _ \<Rightarrow> None)"

text \<open>The names of a list that the module namespace does not bind.\<close>

definition undefined_names :: "world \<Rightarrow> string list \<Rightarrow> string list" where
  "undefined_names w xs = filter (\<lambda>x. namespace w x = None) xs"

subsection \<open>Semantic versions\<close>

text \<open>
  The pattern \<^verbatim>\<open>MAJOR.MINOR.PATCH\<close>: three fields separated by dots, each a numeric
  identifier, that is a non-empty run of decimal digits with no leading zero unless it
  is the single digit zero. \<open>split_on\<close> is \<^verbatim>\<open>str.split(sep)\<close>.
\<close>

fun split_on :: "char \<Rightarrow> string \<Rightarrow> string list" where
  "split_on sep [] = [[]]"
| "split_on sep (c # cs) =
     (if c = sep then [] # split_on sep cs
      else (case split_on sep cs of [] \<Rightarrow> [[c]] | p # ps \<Rightarrow> (c # p) # ps))"

definition is_digit :: "char \<Rightarrow> bool" where
  "is_digit c = (c \<in> set ''0123456789'')"

definition numeric_identifier :: "string \<Rightarrow> bool" where
  "numeric_identifier s =
     (s \<noteq> [] \<and> list_all is_digit s \<and> (if hd s = CHR ''0'' then length s = 1 else True))"

definition matches_semver :: "string \<Rightarrow> bool" where
  "matches_semver s =
     (case split_on CHR ''.'' s of
        [major, minor, patch] \<Rightarrow>
          numeric_identifier major \<and> numeric_identifier minor \<and> numeric_identifier patch
      | _ \<Rightarrow> False)"

subsection \<open>The one-line module\<close>

text \<open>
  The specification's picture of the artifact: a single module declaring a version
  constant, in one line. In the language of the shipped module that line is
  \<^verbatim>\<open>__version__ = "v"\<close>, for a version string \<open>v\<close>; it is run like any module body.
  What a client observes of a loaded module is its interface: the version value together
  with the exported names, when the module has both.
\<close>

definition one_line_module :: "string \<Rightarrow> stmt list" where
  "one_line_module v = [Assign ''__version__'' (Str v)]"

record interface =
  version :: string
  exported :: "string list"

definition observed_interface :: "world \<Rightarrow> interface option" where
  "observed_interface w =
     (case version_of w of
        None \<Rightarrow> None
      | Some v \<Rightarrow>
          (case exports_of w of
             None \<Rightarrow> None
           | Some xs \<Rightarrow> Some \<lparr>version = v, exported = xs\<rparr>))"

subsection \<open>A first import\<close>

text \<open>
  The world a first \<^verbatim>\<open>import network_rag\<close> starts the module body in: the new module
  object has its name and an empty \<^verbatim>\<open>__doc__\<close>, nothing is loaded, nothing was read
  or written, and the interpreter runs unoptimized.
\<close>

definition fresh_world :: world where
  "fresh_world =
     \<lparr>namespace = [''__name__'' \<mapsto> StrV ''network_rag'', ''__doc__'' \<mapsto> NoneV],
      sys_modules = [],
      environ = Map.empty,
      io_trace = [],
      optimize = 0\<rparr>"

section \<open>Loading the module\<close>

text \<open>Making the built-in names available leaves every other name as it was.\<close>

lemma provide_builtins_other:
  "x \<noteq> ''__builtins__'' \<Longrightarrow> namespace (provide_builtins w) x = namespace w x"
  by (simp add: provide_builtins_def split: option.split)

text \<open>
  The load, computed once: with any fuel and from any world it completes, and the world
  it leaves is the one it found with the namespace the module's code started in (the
  one found, with the built-in names available) extended by the module's constants: the
  docstring unless it is stripped, then the version and the export list.
\<close>

lemma load_completes:
  "load n w = Some (Inr (w\<lparr>namespace :=
       (if optimize w < 2
        then (namespace (provide_builtins w))(''__doc__'' \<mapsto> StrV docstring)
        else namespace (provide_builtins w))
       (''__version__'' \<mapsto> StrV ''0.0.1'',
        ''__all__'' \<mapsto> ListV [StrV ''__version__''])\<rparr>))"
  by (simp add: load_def exec_module_def network_rag_init_def provide_builtins_def
      split: option.split)

lemma one_line_module_completes:
  "exec_module n (one_line_module v) w =
     Some (Inr (w\<lparr>namespace := (namespace (provide_builtins w))(''__version__'' \<mapsto> StrV v)\<rparr>))"
  by (simp add: exec_module_def one_line_module_def provide_builtins_def
      split: option.split)

lemma operations_init: "operations network_rag_init = []"
  by (simp add: operations_def network_rag_init_def)

text \<open>A literal evaluates, whatever the world: it reads nothing.\<close>

lemma literal_evaluates:
  "is_literal e \<Longrightarrow> \<exists>v. eval w e = Inr v"
  "are_literals es \<Longrightarrow> \<exists>vs. eval_items w es = Inr vs"
  by (induction e and es rule: is_literal_are_literals.induct) auto

text \<open>
  A run of constant definitions completes with any fuel, and touches nothing but the
  namespace.
\<close>

lemma constant_definition_completes:
  assumes "is_constant_definition s"
  shows "\<exists>w'. exec n s w = Some (Inr w') \<and> sys_modules w' = sys_modules w
           \<and> environ w' = environ w \<and> io_trace w' = io_trace w"
proof (cases s)
  case (Expr e)
  with assms obtain d where "e = Str d" by (cases e) auto
  with Expr show ?thesis by simp
next
  case (Assign x e)
  with assms have "is_literal e" by simp
  then obtain v where "eval w e = Inr v" using literal_evaluates(1) by blast
  with Assign show ?thesis by simp
qed (use assms in auto)

lemma constant_definitions_complete:
  "list_all is_constant_definition ss \<Longrightarrow>
     \<exists>w'. exec_block n ss w = Some (Inr w') \<and> sys_modules w' = sys_modules w
        \<and> environ w' = environ w \<and> io_trace w' = io_trace w"
proof (induction ss arbitrary: w)
  case Nil
  then show ?case by simp
next
  case (Cons s ss)
  then have "is_constant_definition s" and rest: "list_all is_constant_definition ss"
    by simp_all
  then obtain w1 where s1: "exec n s w = Some (Inr w1)"
    and f1: "sys_modules w1 = sys_modules w" "environ w1 = environ w" "io_trace w1 = io_trace w"
    using constant_definition_completes by blast
  from Cons.IH [OF rest, of w1] obtain w2 where s2: "exec_block n ss w1 = Some (Inr w2)"
    and f2: "sys_modules w2 = sys_modules w1" "environ w2 = environ w1" "io_trace w2 = io_trace w1"
    by blast
  from s1 s2 f1 f2 show ?case by simp
qed

text \<open>A body in which no loop occurs terminates with any fuel, also with none.\<close>

lemma loop_free_terminates:
  "filter is_loop (substatements s) = [] \<Longrightarrow> \<exists>r. exec n s w = Some r"
  "filter is_loop (block_statements ss) = [] \<Longrightarrow> \<exists>r. exec_block n ss w = Some r"
proof (induction n s w and n ss w rule: exec_exec_block.induct)
  case (6 n c body w)
  then show ?case by (auto split: option.splits sum.splits)
next
  case (7 n c thn els w)
  then show ?case by (auto split: sum.splits)
next
  case (12 n s ss w)
  then show ?case by (auto split: option.splits sum.splits)
qed (auto split: option.splits sum.splits)

text \<open>The module defines no operation, so the loaded module never takes a step.\<close>

lemma no_module_step: "\<not> module_step network_rag_init w w'"
  by (auto simp: operations_init elim: module_step.cases)

lemma module_steps_stay: "(module_step network_rag_init)\<^sup>*\<^sup>* w w' \<Longrightarrow> w' = w"
  by (induction rule: rtranclp_induct) (auto simp: no_module_step)

section \<open>The claims\<close>

text \<open>
  C1. The version identifier the module exposes is a non-empty string that matches the
  semantic-version pattern \<^verbatim>\<open>MAJOR.MINOR.PATCH\<close>: after a load, from any world,
  \<^verbatim>\<open>__version__\<close> is bound to a string, the string is not empty, and it splits at its
  dots into three numeric identifiers.
\<close>

theorem version_matches_semver:
  "\<exists>w' v. load n w = Some (Inr w') \<and> namespace w' ''__version__'' = Some (StrV v)
     \<and> version_of w' = Some v \<and> v \<noteq> [] \<and> matches_semver v"
  by (simp add: load_completes version_of_def matches_semver_def numeric_identifier_def
      is_digit_def)

text \<open>
  C2. The export list \<^verbatim>\<open>__all__\<close> holds exactly one name, \<^verbatim>\<open>__version__\<close>, and every
  name it lists is bound in the module: after a load, \<^verbatim>\<open>__all__\<close> is the list of the one
  string \<^verbatim>\<open>"__version__"\<close>, so the exported names are that one name, and none of the
  exported names is undefined in the module namespace.
\<close>

theorem all_exports_exactly_version:
  "\<exists>w' xs. load n w = Some (Inr w') \<and> namespace w' ''__all__'' = Some (ListV [StrV ''__version__''])
     \<and> exports_of w' = Some xs \<and> xs = [''__version__''] \<and> undefined_names w' xs = []"
  by (simp add: load_completes exports_of_def undefined_names_def)


text \<open>
  C4. The version is set once, at load, and nothing changes it afterwards. The module
  body binds \<^verbatim>\<open>__version__\<close> in exactly one statement and unbinds it in none; it
  defines no operation; so a world reached from a loaded one by any number of calls of
  the module's operations is the loaded world itself, with the version it was given.
\<close>

theorem version_immutable_after_load:
  assumes "load n w = Some (Inr w1)"
    and "(module_step network_rag_init)\<^sup>*\<^sup>* w1 w2"
  shows "w2 = w1 \<and> version_of w2 = Some ''0.0.1''
     \<and> length (filter (assigns ''__version__'') (block_statements network_rag_init)) = 1
     \<and> filter (deletes ''__version__'') (block_statements network_rag_init) = []
     \<and> operations network_rag_init = []"
proof -
  from assms(2) have same: "w2 = w1" by (rule module_steps_stay)
  from assms(1) have "version_of w1 = Some ''0.0.1''"
    by (auto simp: load_completes version_of_def)
  moreover have "length (filter (assigns ''__version__'') (block_statements network_rag_init)) = 1"
    by (simp add: network_rag_init_def)
  moreover have "filter (deletes ''__version__'') (block_statements network_rag_init) = []"
    by (simp add: network_rag_init_def)
  ultimately show ?thesis using same operations_init by simp
qed

theorem version_immutable_after_load_witness:
  "load 0 fresh_world = Some (Inr (fresh_world\<lparr>namespace := (namespace fresh_world)
       (''__builtins__'' \<mapsto> BuiltinsV,
        ''__doc__'' \<mapsto> StrV docstring,
        ''__version__'' \<mapsto> StrV ''0.0.1'',
        ''__all__'' \<mapsto> ListV [StrV ''__version__''])\<rparr>))
   \<and> (module_step network_rag_init)\<^sup>*\<^sup>*
       (fresh_world\<lparr>namespace := (namespace fresh_world)
         (''__builtins__'' \<mapsto> BuiltinsV,
          ''__doc__'' \<mapsto> StrV docstring,
          ''__version__'' \<mapsto> StrV ''0.0.1'',
          ''__all__'' \<mapsto> ListV [StrV ''__version__''])\<rparr>)
       (fresh_world\<lparr>namespace := (namespace fresh_world)
         (''__builtins__'' \<mapsto> BuiltinsV,
          ''__doc__'' \<mapsto> StrV docstring,
          ''__version__'' \<mapsto> StrV ''0.0.1'',
          ''__all__'' \<mapsto> ListV [StrV ''__version__''])\<rparr>)
   \<and> version_of (fresh_world\<lparr>namespace := (namespace fresh_world)
         (''__builtins__'' \<mapsto> BuiltinsV,
          ''__doc__'' \<mapsto> StrV docstring,
          ''__version__'' \<mapsto> StrV ''0.0.1'',
          ''__all__'' \<mapsto> ListV [StrV ''__version__''])\<rparr>) = Some ''0.0.1''"
proof -
  let ?w1 = "fresh_world\<lparr>namespace := (namespace fresh_world)
       (''__builtins__'' \<mapsto> BuiltinsV,
        ''__doc__'' \<mapsto> StrV docstring,
        ''__version__'' \<mapsto> StrV ''0.0.1'',
        ''__all__'' \<mapsto> ListV [StrV ''__version__''])\<rparr>"
  have loaded: "load 0 fresh_world = Some (Inr ?w1)"
    by (simp add: load_def exec_module_def network_rag_init_def provide_builtins_def
        fresh_world_def)
  have steps: "(module_step network_rag_init)\<^sup>*\<^sup>* ?w1 ?w1"
    by simp
  from version_immutable_after_load [OF loaded steps] loaded steps show ?thesis
    by simp
qed

text \<open>
  C5. Loading performs no operation that can fail, and the module declares no error
  taxonomy: with any fuel and from any world the load completes normally (no exception
  escapes and it does not run on), every statement of the body is a constant definition,
  a kind of statement that cannot raise, and nowhere in the body is an exception raised
  or a class defined.
\<close>

theorem load_never_raises:
  "(\<exists>w'. load n w = Some (Inr w'))
   \<and> list_all is_constant_definition network_rag_init
   \<and> filter is_raise (block_statements network_rag_init) = []
   \<and> filter is_class_def (block_statements network_rag_init) = []"
proof -
  have body_consts: "list_all is_constant_definition network_rag_init"
    by (simp add: network_rag_init_def)
  then have "\<exists>w'. exec_block n network_rag_init
      (bind_docstring network_rag_init (provide_builtins w)) = Some (Inr w')"
    using constant_definitions_complete by blast
  then have "\<exists>w'. load n w = Some (Inr w')"
    by (simp add: load_def exec_module_def)
  moreover have "filter is_raise (block_statements network_rag_init) = []"
    and "filter is_class_def (block_statements network_rag_init) = []"
    by (simp_all add: network_rag_init_def)
  ultimately show ?thesis using body_consts by blast
qed

text \<open>
  C6, as stated: the shipped module and the one-line module that declares only the
  version constant yield the same observable state, the same version value and the same
  public export surface. It fails at a first import: the shipped module leaves the
  interface of version \<^verbatim>\<open>0.0.1\<close> exporting \<^verbatim>\<open>__version__\<close>; the one-line module
  \<^verbatim>\<open>__version__ = "0.0.1"\<close> completes with the same version but declares no
  \<^verbatim>\<open>__all__\<close>, so it has no export list and no such interface.
\<close>

theorem one_line_module_lacks_exports:
  "(case load 0 fresh_world of Some (Inr w1) \<Rightarrow> observed_interface w1 | _ \<Rightarrow> None)
       = Some \<lparr>version = ''0.0.1'', exported = [''__version__'']\<rparr>
   \<and> (case exec_module 0 (one_line_module ''0.0.1'') fresh_world of
         Some (Inr w2) \<Rightarrow> version_of w2 | _ \<Rightarrow> None) = Some ''0.0.1''
   \<and> (case exec_module 0 (one_line_module ''0.0.1'') fresh_world of
         Some (Inr w2) \<Rightarrow> exports_of w2 | _ \<Rightarrow> None) = None
   \<and> (case exec_module 0 (one_line_module ''0.0.1'') fresh_world of
         Some (Inr w2) \<Rightarrow> observed_interface w2 | _ \<Rightarrow> None) = None"
  by (simp add: load_completes one_line_module_completes observed_interface_def
      version_of_def exports_of_def provide_builtins_def fresh_world_def)

text \<open>
  C6, amended: the shipped module and the one-line module that declares only the version
  constant yield the same version value, and the same state but for the docstring and
  the export list, which only the shipped module defines. From any world both loads
  complete; the one-line module \<^verbatim>\<open>__version__ = "v"\<close> leaves the version of the shipped
  module exactly when \<open>v\<close> is \<^verbatim>\<open>0.0.1\<close>; the two namespaces agree on every name other
  than \<^verbatim>\<open>__version__\<close>, \<^verbatim>\<open>__doc__\<close> and \<^verbatim>\<open>__all__\<close>, and the two worlds agree outside the
  namespace; the shipped module exports \<^verbatim>\<open>__version__\<close>, and the one-line module leaves
  whatever export list it found.
\<close>

theorem load_agrees_with_one_line_module:
  "\<exists>w1 w2. load n w = Some (Inr w1) \<and> exec_module m (one_line_module v) w = Some (Inr w2)
     \<and> version_of w1 = Some ''0.0.1'' \<and> version_of w2 = Some v
     \<and> (version_of w2 = version_of w1) = (v = ''0.0.1'')
     \<and> (namespace w1)(''__version__'' := None, ''__doc__'' := None, ''__all__'' := None)
         = (namespace w2)(''__version__'' := None, ''__doc__'' := None, ''__all__'' := None)
     \<and> io_trace w1 = io_trace w2 \<and> sys_modules w1 = sys_modules w2
     \<and> environ w1 = environ w2 \<and> optimize w1 = optimize w2
     \<and> exports_of w1 = Some [''__version__'']
     \<and> exports_of w2 = exports_of w"
proof -
  let ?w1 = "w\<lparr>namespace :=
       (if optimize w < 2
        then (namespace (provide_builtins w))(''__doc__'' \<mapsto> StrV docstring)
        else namespace (provide_builtins w))
       (''__version__'' \<mapsto> StrV ''0.0.1'',
        ''__all__'' \<mapsto> ListV [StrV ''__version__''])\<rparr>"
  let ?w2 = "w\<lparr>namespace := (namespace (provide_builtins w))(''__version__'' \<mapsto> StrV v)\<rparr>"
  have l1: "load n w = Some (Inr ?w1)" by (rule load_completes)
  have l2: "exec_module m (one_line_module v) w = Some (Inr ?w2)"
    by (rule one_line_module_completes)
  have v1: "version_of ?w1 = Some ''0.0.1''" by (simp add: version_of_def)
  have v2: "version_of ?w2 = Some v" by (simp add: version_of_def)
  have same: "(version_of ?w2 = version_of ?w1) = (v = ''0.0.1'')"
    unfolding v1 v2 by simp
  have rest: "(namespace ?w1)(''__version__'' := None, ''__doc__'' := None, ''__all__'' := None)
      = (namespace ?w2)(''__version__'' := None, ''__doc__'' := None, ''__all__'' := None)"
    by (rule ext) simp
  have e1: "exports_of ?w1 = Some [''__version__'']" by (simp add: exports_of_def)
  have e2: "exports_of ?w2 = exports_of w"
    by (simp add: exports_of_def provide_builtins_other)
  have outside: "io_trace ?w1 = io_trace ?w2" "sys_modules ?w1 = sys_modules ?w2"
    "environ ?w1 = environ ?w2" "optimize ?w1 = optimize ?w2"
    by simp_all
  from l1 l2 v1 v2 same rest e1 e2 outside show ?thesis by blast
qed

text \<open>
  C7. The module has no control flow, no data flow and no components: its body is a
  fixed sequence of three constant definitions, the docstring, \<^verbatim>\<open>__version__\<close> and
  \<^verbatim>\<open>__all__\<close>, each of a literal (an expression that reads no name); no function, class,
  branch, loop or import occurs anywhere in it; and running it takes no loop iteration,
  the load with no fuel being the load with any.
\<close>

theorem module_is_three_constant_definitions:
  "(\<exists>d v a. network_rag_init = [Expr (Str d), Assign ''__version__'' v, Assign ''__all__'' a]
       \<and> is_literal v \<and> is_literal a)
   \<and> length network_rag_init = 3
   \<and> list_all is_constant_definition network_rag_init
   \<and> filter is_function_def (block_statements network_rag_init) = []
   \<and> filter is_class_def (block_statements network_rag_init) = []
   \<and> filter is_branch (block_statements network_rag_init) = []
   \<and> filter is_loop (block_statements network_rag_init) = []
   \<and> filter is_import (block_statements network_rag_init) = []
   \<and> load n w = load 0 w"
  by (simp add: load_completes) (simp add: network_rag_init_def)

text \<open>
  C8. The version constant is exactly the string \<^verbatim>\<open>0.0.1\<close>: after a load, from any
  world, \<^verbatim>\<open>__version__\<close> is bound to that string.
\<close>

theorem version_is_0_0_1:
  "\<exists>w'. load n w = Some (Inr w') \<and> namespace w' ''__version__'' = Some (StrV ''0.0.1'')
     \<and> version_of w' = Some ''0.0.1''"
  by (simp add: load_completes version_of_def)

text \<open>
  C9. Loading is deterministic and depends on nothing it finds: any two loads, with any
  fuel and from any two worlds (whatever their namespaces, loaded modules, environments
  and I/O traces), both complete and leave the same \<^verbatim>\<open>__version__\<close> string and the same
  \<^verbatim>\<open>__all__\<close> list.
\<close>

theorem load_deterministic:
  "\<exists>w1' w2'. load n1 w1 = Some (Inr w1') \<and> load n2 w2 = Some (Inr w2')
     \<and> namespace w1' ''__version__'' = namespace w2' ''__version__''
     \<and> namespace w1' ''__all__'' = namespace w2' ''__all__''
     \<and> version_of w1' = version_of w2'
     \<and> exports_of w1' = exports_of w2'"
  by (simp add: load_completes version_of_def exports_of_def)

text \<open>
  C10. Module load always terminates: with any fuel, also with none, and from any world
  the load returns a result; the body is a sequence of three statements in which no
  loop occurs.
\<close>

theorem load_terminates:
  "(\<exists>r. load n w = Some r) \<and> (\<exists>r. load 0 w = Some r)
   \<and> length network_rag_init = 3
   \<and> filter is_loop (block_statements network_rag_init) = []"
proof -
  have loop_free: "filter is_loop (block_statements network_rag_init) = []"
    by (simp add: network_rag_init_def)
  then have "\<exists>r. exec_block k network_rag_init
      (bind_docstring network_rag_init (provide_builtins w)) = Some r" for k
    by (rule loop_free_terminates(2))
  then have "\<exists>r. load k w = Some r" for k
    by (simp add: load_def exec_module_def)
  moreover have "length network_rag_init = 3"
    by (simp add: network_rag_init_def)
  ultimately show ?thesis using loop_free by blast
qed

end
